theory Spec2Isabelle
  imports Complex_Main "HOL-Library.Sublist"
begin

section \<open>JavaScript strings and arrays\<close>

text \<open>
  A JavaScript string is modelled as a \<^typ>\<open>string\<close>, a list of 8-bit characters: the
  model is exact on ASCII text, and a character outside ASCII stands as its UTF-8 bytes
  (so \<open>length\<close> counts bytes there, and \<open>toLowerCase\<close> leaves those bytes alone).
  An optional property (\<open>details?: string\<close>) is a \<^typ>\<open>string option\<close>; a test
  \<open>if (x)\<close> on it is \<open>truthy\<close>: defined and not the empty string.
\<close>

definition nl :: string where
  "nl = [CHR 0x0A]"

definition truthy :: "string option \<Rightarrow> bool" where
  "truthy x = (case x of None \<Rightarrow> False | Some s \<Rightarrow> s \<noteq> [])"

text \<open>\<open>`${n}`\<close> for a non-negative integer \<open>n\<close>: its decimal digits.\<close>

fun show_nat :: "nat \<Rightarrow> string" where
  "show_nat n =
     (if n < 10 then [char_of (48 + n)]
      else show_nat (n div 10) @ [char_of (48 + n mod 10)])"

declare show_nat.simps [simp del]

definition toLowerCase_char :: "char \<Rightarrow> char" where
  "toLowerCase_char c =
     (let n = of_char c :: nat in if 65 \<le> n \<and> n \<le> 90 then char_of (n + 32) else c)"

definition toLowerCase :: "string \<Rightarrow> string" where
  "toLowerCase s = map toLowerCase_char s"

text \<open>\<open>s.includes(sub)\<close>: \<open>sub\<close> occurs in \<open>s\<close> as a contiguous run.\<close>

fun str_includes :: "string \<Rightarrow> string \<Rightarrow> bool" where
  "str_includes [] sub = (sub = [])"
| "str_includes (c # cs) sub = (prefix sub (c # cs) \<or> str_includes cs sub)"

text \<open>\<open>s.indexOf(sub)\<close>: the first position of \<open>sub\<close> in \<open>s\<close>; \<open>None\<close> is JavaScript's -1.\<close>

fun indexOf :: "string \<Rightarrow> string \<Rightarrow> nat option" where
  "indexOf [] sub = (if sub = [] then Some 0 else None)"
| "indexOf (c # cs) sub =
     (if prefix sub (c # cs) then Some 0 else map_option Suc (indexOf cs sub))"

text \<open>\<open>s.substring(i, j)\<close> for \<open>0 \<le> i \<le> j\<close>, with \<open>j\<close> cut at the length as JavaScript does.\<close>

definition substring :: "string \<Rightarrow> nat \<Rightarrow> nat \<Rightarrow> string" where
  "substring s i j = take (j - i) (drop i s)"

definition is_space :: "char \<Rightarrow> bool" where
  "is_space c = (c \<in> set [CHR 0x09, CHR 0x0A, CHR 0x0B, CHR 0x0C, CHR 0x0D, CHR 0x20])"

definition trim :: "string \<Rightarrow> string" where
  "trim s = rev (dropWhile is_space (rev (dropWhile is_space s)))"

text \<open>\<open>xs.join(sep)\<close>\<close>

fun join :: "string \<Rightarrow> string list \<Rightarrow> string" where
  "join sep [] = []"
| "join sep [x] = x"
| "join sep (x # y # ys) = x @ sep @ join sep (y # ys)"

text \<open>\<open>s.replace(/\/$/, "")\<close>: the regular expression matches one slash at the very end.\<close>

definition strip_trailing_slash :: "string \<Rightarrow> string" where
  "strip_trailing_slash s = (if s \<noteq> [] \<and> last s = CHR ''/'' then butlast s else s)"

section \<open>The data model (types.ts)\<close>

text \<open>
  Each interface is a record. A field keeps its source name behind the record's prefix
  where the plain name is also a local variable of the code modelled below
  (\<open>url\<close>, \<open>results\<close>, \<open>forms\<close>, ...) or an Isabelle keyword (\<open>text\<close>, \<open>type\<close>, \<open>method\<close>).
\<close>

datatype status = Pass | Fail | Warning

record TestResult =
  page :: string
  test :: string
  status :: status
  message :: string
  screenshot :: "string option"
  details :: "string option"

record TestReport =
  report_url :: string
  report_timestamp :: string
  report_totalTests :: nat
  report_passed :: nat
  report_failed :: nat
  report_warnings :: nat
  report_results :: "TestResult list"
  report_summary :: string
  report_fixInstructions :: string

record ConsoleError =
  error_type :: string
  error_text :: string
  error_url :: "string option"
  error_line :: "nat option"

record LinkInfo =
  link_text :: string
  href :: string
  isInternal :: bool

record FieldInfo =
  field_type :: string
  field_name :: string
  field_id :: string
  field_placeholder :: string
  field_required :: bool
  field_label :: string

record FormInfo =
  form_action :: string
  form_method :: string
  form_fields :: "FieldInfo list"
  submitButton :: "string option"
  form_id :: "string option"

record ButtonInfo =
  button_text :: string
  button_type :: string
  button_id :: string
  button_disabled :: bool
  button_selector :: string

record PageInfo =
  page_url :: string
  page_title :: string
  page_links :: "LinkInfo list"
  page_forms :: "FormInfo list"
  page_buttons :: "ButtonInfo list"
  page_errors :: "ConsoleError list"
  page_screenshot :: string

section \<open>Reporter (reporter.ts)\<close>

text \<open>The three signs of the summary, as their UTF-8 bytes: U+2705, U+274C, U+26A0 U+FE0F.\<close>

definition check_mark :: string where
  "check_mark = [CHR 0xE2, CHR 0x9C, CHR 0x85]"

definition cross_mark :: string where
  "cross_mark = [CHR 0xE2, CHR 0x9D, CHR 0x8C]"

definition warning_sign :: string where
  "warning_sign = [CHR 0xE2, CHR 0x9A, CHR 0xA0, CHR 0xEF, CHR 0xB8, CHR 0x8F]"

text \<open>
  \<open>buildSummary\<close>. The variable \<open>summary\<close> grows by \<open>+=\<close>; each \<open>for\<close> loop over a
  filtered list is a \<open>fold\<close> that appends to it. The three pieces of text are named so
  that statements about the summary can refer to them.
\<close>

definition summary_header :: "string \<Rightarrow> nat \<Rightarrow> nat \<Rightarrow> nat \<Rightarrow> string" where
  "summary_header url passed failed warnings =
     ''## AutoTest Report for '' @ url @ nl @ nl @
     ''**Results:** '' @ show_nat passed @ '' passed, '' @ show_nat failed @ '' failed, '' @
       show_nat warnings @ '' warnings'' @ nl @ nl"

definition all_passed_sentence :: string where
  "all_passed_sentence =
     check_mark @ '' All tests passed! The frontend appears to be working correctly.'' @ nl"

definition failures_heading :: string where
  "failures_heading = ''### '' @ cross_mark @ '' Failures'' @ nl"

definition warnings_heading :: string where
  "warnings_heading = ''### '' @ warning_sign @ '' Warnings'' @ nl"

definition outcome_line :: "TestResult \<Rightarrow> string" where
  "outcome_line r = ''- **'' @ test r @ ''** ('' @ page r @ ''): '' @ message r @ nl"

definition fenced_details :: "TestResult \<Rightarrow> string" where
  "fenced_details r =
     (if truthy (details r)
      then ''  ```'' @ nl @ ''  '' @ the (details r) @ nl @ ''  ```'' @ nl
      else [])"

definition buildSummary ::
  "string \<Rightarrow> TestResult list \<Rightarrow> nat \<Rightarrow> nat \<Rightarrow> nat \<Rightarrow> string" where
  "buildSummary url results passed failed warnings =
     (let summary = summary_header url passed failed warnings in
      if failed = 0 \<and> warnings = 0 then summary @ all_passed_sentence
      else
        let summary =
              (if failed > 0
               then fold (\<lambda>r s. s @ outcome_line r @ fenced_details r)
                      (filter (\<lambda>r. status r = Fail) results) (summary @ failures_heading) @ nl
               else summary);
            summary =
              (if warnings > 0
               then fold (\<lambda>r s. s @ outcome_line r)
                      (filter (\<lambda>r. status r = Warning) results) (summary @ warnings_heading) @ nl
               else summary)
        in summary)"

definition suggestFix :: "TestResult \<Rightarrow> string" where
  "suggestFix result =
     (let t = toLowerCase (test result); msg = toLowerCase (message result) in
      if str_includes t ''console-error'' \<or> str_includes t ''page-error'' then
        ''Check the browser console errors above. These are JavaScript runtime errors in your code. Look at the error message and stack trace to find the source file and line.''
      else if str_includes t ''network-error'' then
        ''API or resource requests are failing. Check that your API endpoints exist, the server is running, and URLs are correct. Check CORS settings if it'' @ [CHR 0x27] @ ''s a cross-origin request.''
      else if str_includes t ''form'' \<and> str_includes t ''fill'' then
        ''Form fields could not be interacted with. Ensure input fields have proper '' @ [CHR 0x27] @ ''name'' @ [CHR 0x27] @ '' or '' @ [CHR 0x27] @ ''id'' @ [CHR 0x27] @ '' attributes and are not hidden or overlapped by other elements.''
      else if str_includes t ''form'' \<and> str_includes t ''submit'' then
        ''Form submission caused errors. Check your form submission handler, ensure the API endpoint exists, and verify error handling in the submit function.''
      else if str_includes t ''click'' \<and> str_includes t ''button'' then
        ''A button click caused errors. Check the onClick handler for this button, verify any state changes it triggers, and ensure referenced variables/functions exist.''
      else if str_includes t ''overflow'' then
        ''Content is wider than the viewport causing horizontal scroll. Check for fixed-width elements, missing overflow:hidden, or elements with absolute positioning outside the viewport.''
      else if str_includes t ''broken-images'' then
        ''Some images are not loading. Verify image file paths, ensure files exist in the correct directory, and check that the image URLs are correct.''
      else if str_includes t ''has-content'' then
        ''The page appears blank or empty. Check if the root component is rendering, verify there are no JavaScript errors preventing render, and ensure data fetching is working.''
      else if str_includes msg ''error text'' then
        ''The page is displaying an error message to the user. This could be a React error boundary, a 404 page, or an unhandled error. Check the component rendering logic.''
      else ''Review the error details above and fix the underlying code issue.'')"

definition buildFixInstructions :: "TestResult list \<Rightarrow> string" where
  "buildFixInstructions results =
     (let failures = filter (\<lambda>r. status r = Fail) results in
      if length failures = 0 then ''No fixes needed. All tests passed.''
      else
        fold (\<lambda>failure instructions.
                instructions @
                ''### Issue: '' @ test failure @ nl @
                ''- **Page:** '' @ page failure @ nl @
                ''- **Problem:** '' @ message failure @ nl @
                (if truthy (details failure)
                 then ''- **Details:**'' @ nl @ ''```'' @ nl @ the (details failure) @ nl @ ''```'' @ nl
                 else []) @
                ''- **Suggested fix:** '' @ suggestFix failure @ nl @ nl)
          failures
          (''## Fix Instructions'' @ nl @ nl @
           ''The following issues were found by testing the actual frontend in a browser:'' @ nl @ nl))"

text \<open>
  \<open>compile\<close>. The timestamp \<open>new Date().toISOString()\<close> is read from the clock, so the
  model takes it as the argument \<open>now\<close>.
\<close>

definition compile :: "string \<Rightarrow> string \<Rightarrow> TestResult list \<Rightarrow> TestReport" where
  "compile now url results =
     (let passed = length (filter (\<lambda>r. status r = Pass) results);
          failed = length (filter (\<lambda>r. status r = Fail) results);
          warnings = length (filter (\<lambda>r. status r = Warning) results);
          summary = buildSummary url results passed failed warnings;
          fixInstructions = buildFixInstructions results
      in \<lparr>report_url = url, report_timestamp = now, report_totalTests = length results,
          report_passed = passed, report_failed = failed, report_warnings = warnings,
          report_results = results, report_summary = summary,
          report_fixInstructions = fixInstructions\<rparr>)"

definition formatForCopilot :: "TestReport \<Rightarrow> string" where
  "formatForCopilot report =
     (let output = report_summary report @ nl in
      if report_failed report > 0
      then output @ report_fixInstructions report @ nl @ ''---'' @ nl @
           ''Please fix the above issues. After fixing, I can test again to verify.'' @ nl
      else output)"

text \<open>
  The two sections of the summary as the specification describes them: a heading, one
  entry per outcome of that status in the order of the list, and an empty line.
\<close>

definition failures_section :: "TestResult list \<Rightarrow> string" where
  "failures_section results =
     failures_heading @
     concat (map (\<lambda>r. outcome_line r @ fenced_details r)
       (filter (\<lambda>r. status r = Fail) results)) @ nl"

definition warnings_section :: "TestResult list \<Rightarrow> string" where
  "warnings_section results =
     warnings_heading @
     concat (map outcome_line (filter (\<lambda>r. status r = Warning) results)) @ nl"

definition one_warning :: "TestResult list" where
  "one_warning =
     [\<lparr>page = ''http://localhost:3000'', test = ''images-alt'', status = Warning,
       message = ''1 image(s) missing alt text'', screenshot = None, details = None\<rparr>]"

section \<open>The browser engine (engine.ts)\<close>

text \<open>
  \<open>BrowserEngine\<close> drives a real browser through Puppeteer. What the browser answers is
  not code of the repository, so it is a parameter of the model, the \<open>world\<close>: for each
  call of the engine, numbered in the order they are made, it gives what Puppeteer
  returns then and the console, page-error and failed-request events that the listeners
  installed by \<open>newPage\<close> receive while the call is awaited (\<open>arrivals\<close>). Any sequence of
  answers is a \<open>world\<close>, so a statement for all worlds covers every site and every link
  graph, also one that changes while it is crawled.

  The engine's own state is modelled as it is written: whether \<open>this.browser\<close> and
  \<open>this.page\<close> are set, and the list \<open>this.consoleErrors\<close>. The field \<open>calls\<close> is
  added: the log of the engine methods called so far, with what each returned. It is
  what a statement about navigations and interactions speaks of.

  The two \<open>throw\<close> statements of the engine are the two values of \<open>error\<close>; a method
  returns \<open>Inl\<close> of one when it throws. Puppeteer calls that engine.ts wraps in
  \<open>try\<close>/\<open>catch\<close> may fail, and the world says when; the others (\<open>newPage\<close>,
  \<open>title\<close>, \<open>evaluate\<close>, \<open>screenshot\<close>) are taken to return. The engine's method
  \<open>screenshot\<close> is \<open>take_screenshot\<close> below, since \<open>screenshot\<close> is a field of
  \<open>TestResult\<close>.
\<close>

datatype error = BrowserNotLaunched | NoPageOpen

datatype call =
    NewPage
  | Goto string bool
  | GetPageInfo string
  | GetPageText
  | Screenshot
  | Click string bool
  | FillField string string bool
  | SelectOption string string bool
  | GetConsoleErrors
  | GetCurrentUrl

record world =
  arrivals :: "nat \<Rightarrow> ConsoleError list"
  navigation :: "nat \<Rightarrow> string \<Rightarrow> string + bool"
  dom_title :: "nat \<Rightarrow> string"
  dom_anchors :: "nat \<Rightarrow> (string \<times> string) list"
  dom_forms :: "nat \<Rightarrow> FormInfo list"
  dom_buttons :: "nat \<Rightarrow> ButtonInfo list"
  dom_text :: "nat \<Rightarrow> string"
  capture :: "nat \<Rightarrow> string"
  clicking :: "nat \<Rightarrow> string \<Rightarrow> string + string option"
  typing :: "nat \<Rightarrow> string \<Rightarrow> string \<Rightarrow> bool"
  selecting :: "nat \<Rightarrow> string \<Rightarrow> string \<Rightarrow> bool"
  location :: "nat \<Rightarrow> string"

text \<open>
  \<open>navigation w t url\<close> is \<open>Inr ok\<close> when \<open>page.goto\<close> returns (\<open>ok\<close>: the response is
  not null and is ok) and \<open>Inl msg\<close> when it throws; \<open>clicking w t sel\<close> is
  \<open>Inr newUrl\<close> when the click went through (\<open>newUrl\<close>: the page's URL if it changed) and
  \<open>Inl msg\<close> when waiting for the selector or clicking threw; \<open>dom_anchors\<close> gives the
  text content and the resolved \<open>href\<close> of every \<open>a[href]\<close>; \<open>dom_forms\<close> and
  \<open>dom_buttons\<close> give what the two \<open>evaluate\<close> calls of \<open>getPageInfo\<close> compute inside
  the page.
\<close>

record engine =
  has_browser :: bool
  has_page :: bool
  consoleErrors :: "ConsoleError list"
  calls :: "call list"

record ClickResult =
  success :: bool
  click_error :: "string option"
  newUrl :: "string option"

type_synonym 'a io = "engine \<Rightarrow> (error + 'a) \<times> engine"

definition ret :: "'a \<Rightarrow> 'a io" where
  "ret x = (\<lambda>e. (Inr x, e))"

definition bnd :: "'a io \<Rightarrow> ('a \<Rightarrow> 'b io) \<Rightarrow> 'b io" where
  "bnd m f = (\<lambda>e. case m e of (Inl err, e') \<Rightarrow> (Inl err, e') | (Inr x, e') \<Rightarrow> f x e')"

text \<open>An awaited browser call: the events that arrive meanwhile are appended, the call is logged.\<close>

definition awaited :: "world \<Rightarrow> call \<Rightarrow> engine \<Rightarrow> engine" where
  "awaited w c e =
     e\<lparr>consoleErrors := consoleErrors e @ arrivals w (length (calls e)),
       calls := calls e @ [c]\<rparr>"

definition logged :: "call \<Rightarrow> engine \<Rightarrow> engine" where
  "logged c e = e\<lparr>calls := calls e @ [c]\<rparr>"

definition launch :: "unit io" where
  "launch = (\<lambda>e. (Inr (), e\<lparr>has_browser := True\<rparr>))"

definition newPage :: "unit io" where
  "newPage =
     (\<lambda>e. if \<not> has_browser e then (Inl BrowserNotLaunched, e)
          else (Inr (), logged NewPage (e\<lparr>has_page := True, consoleErrors := []\<rparr>)))"

definition goto :: "world \<Rightarrow> string \<Rightarrow> bool io" where
  "goto w url =
     (\<lambda>e. if \<not> has_page e then (Inl NoPageOpen, e)
          else
            (case navigation w (length (calls e)) url of
               Inr ok \<Rightarrow> (Inr ok, awaited w (Goto url ok) e)
             | Inl msg \<Rightarrow>
                 (let e1 = awaited w (Goto url False) e in
                  (Inr False,
                   e1\<lparr>consoleErrors := consoleErrors e1 @
                        [\<lparr>error_type = ''navigation-error'',
                          error_text = ''Failed to navigate to '' @ url @ '': '' @ msg,
                          error_url = Some url, error_line = None\<rparr>]\<rparr>))))"

definition take_screenshot :: "world \<Rightarrow> string io" where
  "take_screenshot w =
     (\<lambda>e. if \<not> has_page e then (Inl NoPageOpen, e)
          else (Inr (capture w (length (calls e))), awaited w Screenshot e))"

definition getPageInfo :: "world \<Rightarrow> string \<Rightarrow> PageInfo io" where
  "getPageInfo w url =
     (\<lambda>e. if \<not> has_page e then (Inl NoPageOpen, e)
          else
            (let t = length (calls e);
                 links = map (\<lambda>(txt, h).
                           \<lparr>link_text = take 100 (trim txt), href = h,
                            isInternal = (prefix url h \<or> prefix ''/'' h)\<rparr>) (dom_anchors w t)
             in bnd (take_screenshot w)
                  (\<lambda>screenshotBase64 e2.
                     (Inr \<lparr>page_url = url, page_title = dom_title w t, page_links = links,
                           page_forms = dom_forms w t, page_buttons = dom_buttons w t,
                           page_errors = consoleErrors e2,
                           page_screenshot = screenshotBase64\<rparr>, e2))
                  (awaited w (GetPageInfo url) e)))"

definition click :: "world \<Rightarrow> string \<Rightarrow> ClickResult io" where
  "click w selector =
     (\<lambda>e. if \<not> has_page e then (Inl NoPageOpen, e)
          else
            (case clicking w (length (calls e)) selector of
               Inr changed \<Rightarrow>
                 (Inr \<lparr>success = True, click_error = None, newUrl = changed\<rparr>,
                  awaited w (Click selector True) e)
             | Inl msg \<Rightarrow>
                 (Inr \<lparr>success = False, click_error = Some msg, newUrl = None\<rparr>,
                  awaited w (Click selector False) e)))"

definition fillField :: "world \<Rightarrow> string \<Rightarrow> string \<Rightarrow> bool io" where
  "fillField w selector v =
     (\<lambda>e. if \<not> has_page e then (Inl NoPageOpen, e)
          else (let ok = typing w (length (calls e)) selector v
                in (Inr ok, awaited w (FillField selector v ok) e)))"

definition selectOption :: "world \<Rightarrow> string \<Rightarrow> string \<Rightarrow> bool io" where
  "selectOption w selector v =
     (\<lambda>e. if \<not> has_page e then (Inl NoPageOpen, e)
          else (let ok = selecting w (length (calls e)) selector v
                in (Inr ok, awaited w (SelectOption selector v ok) e)))"

definition getCurrentUrl :: "world \<Rightarrow> string io" where
  "getCurrentUrl w =
     (\<lambda>e. (Inr (if \<not> has_page e then [] else location w (length (calls e))),
           logged GetCurrentUrl e))"

definition getConsoleErrors :: "ConsoleError list io" where
  "getConsoleErrors = (\<lambda>e. (Inr (consoleErrors e), logged GetConsoleErrors e))"

definition getPageText :: "world \<Rightarrow> string io" where
  "getPageText w =
     (\<lambda>e. if \<not> has_page e then (Inr [], logged GetPageText e)
          else (Inr (dom_text w (length (calls e))), awaited w GetPageText e))"

section \<open>The crawler (navigator.ts)\<close>

text \<open>
  \<open>normalizeUrl\<close> calls the platform's \<open>URL\<close> constructor, which is not code of the
  repository: it is the parameter \<open>parse\<close>, \<open>None\<close> when the constructor throws and
  otherwise the two properties that are read.
\<close>

record URL =
  origin :: string
  pathname :: string

definition normalizeUrl :: "(string \<Rightarrow> URL option) \<Rightarrow> string \<Rightarrow> string" where
  "normalizeUrl parse url =
     (case parse url of
        Some u \<Rightarrow> strip_trailing_slash (origin u @ pathname u)
      | None \<Rightarrow> url)"

definition extractContext :: "string \<Rightarrow> string \<Rightarrow> string" where
  "extractContext txt keyword =
     (case indexOf (toLowerCase txt) keyword of
        None \<Rightarrow> []
      | Some idx \<Rightarrow>
          (let start = idx - 50;
               stop = min (length txt) (idx + length keyword + 50)
           in ''...'' @ substring txt start stop @ ''...''))"

text \<open>
  A JavaScript \<open>Set\<close> of strings, as the list of its members in insertion order.
\<close>

definition Set_has :: "string list \<Rightarrow> string \<Rightarrow> bool" where
  "Set_has s x = (x \<in> set s)"

definition Set_add :: "string list \<Rightarrow> string \<Rightarrow> string list" where
  "Set_add s x = (if x \<in> set s then s else s @ [x])"

definition Set_size :: "string list \<Rightarrow> nat" where
  "Set_size s = length s"

definition MAX_PAGES :: nat where
  "MAX_PAGES = 10"

definition errorIndicators :: "string list" where
  "errorIndicators =
     [''cannot read properties'', ''is not defined'', ''unexpected token'',
      ''module not found'', ''404'', ''500 internal server error'',
      ''something went wrong'', ''error boundary'', ''unhandled runtime error'']"

text \<open>The local variables of \<open>discoverAndTestPages\<close> that the loop updates.\<close>

record crawl =
  crawl_results :: "TestResult list"
  crawl_pages :: "PageInfo list"
  visited :: "string list"
  toVisit :: "string list"

text \<open>
  The three checks of a loaded page, each the list of outcomes it pushes.
\<close>

definition console_checks :: "string \<Rightarrow> PageInfo \<Rightarrow> TestResult list" where
  "console_checks url pageInfo =
     (if length (page_errors pageInfo) > 0 then
        (let criticalErrors =
               filter (\<lambda>e. error_type e = ''page-error'' \<or> error_type e = ''console-error'')
                 (page_errors pageInfo)
         in if length criticalErrors > 0
            then [\<lparr>page = url, test = ''console-errors'', status = Fail,
                   message = ''Page has '' @ show_nat (length criticalErrors) @
                     '' console error(s)'',
                   screenshot = None,
                   details = Some (join nl (map error_text criticalErrors))\<rparr>]
            else []) @
        (let networkErrors =
               filter (\<lambda>e. error_type e = ''network-error'') (page_errors pageInfo)
         in if length networkErrors > 0
            then [\<lparr>page = url, test = ''network-errors'', status = Warning,
                   message = show_nat (length networkErrors) @ '' failed network request(s)'',
                   screenshot = None,
                   details = Some (join nl (map error_text networkErrors))\<rparr>]
            else [])
      else [])"

definition content_check :: "string \<Rightarrow> PageInfo \<Rightarrow> string \<Rightarrow> TestResult list" where
  "content_check url pageInfo bodyText =
     (if bodyText = [] \<or> length (trim bodyText) < 10
      then [\<lparr>page = url, test = ''has-content'', status = Fail,
             message = ''Page appears empty or has very little content'',
             screenshot = None, details = None\<rparr>]
      else [\<lparr>page = url, test = ''page-load'', status = Pass,
             message = ''Page loaded successfully: '' @ [CHR 0x22] @ page_title pageInfo @
               [CHR 0x22],
             screenshot = Some (page_screenshot pageInfo), details = None\<rparr>])"

definition error_text_check :: "string \<Rightarrow> string \<Rightarrow> TestResult list" where
  "error_text_check url bodyText =
     (let lowerText = toLowerCase bodyText in
      case find (\<lambda>indicator. str_includes lowerText indicator) errorIndicators of
        None \<Rightarrow> []
      | Some indicator \<Rightarrow>
          [\<lparr>page = url, test = ''error-text-check'', status = Fail,
            message = ''Page contains error text: '' @ [CHR 0x22] @ indicator @ [CHR 0x22],
            screenshot = None,
            details = Some (extractContext bodyText indicator)\<rparr>])"

text \<open>
  One pass of the loop body from \<open>// Navigate\<close> on, for a URL that has just been added
  to \<open>visited\<close>.
\<close>

definition visit ::
  "(string \<Rightarrow> URL option) \<Rightarrow> world \<Rightarrow> string \<Rightarrow> crawl \<Rightarrow> crawl io" where
  "visit parse w url st =
     bnd newPage (\<lambda>_.
     bnd (goto w url) (\<lambda>loaded.
       if \<not> loaded then
         ret (st\<lparr>crawl_results := crawl_results st @
                  [\<lparr>page = url, test = ''page-load'', status = Fail,
                    message = ''Page failed to load: '' @ url,
                    screenshot = None, details = None\<rparr>]\<rparr>)
       else
         bnd (getPageInfo w url) (\<lambda>pageInfo.
         bnd (getPageText w) (\<lambda>bodyText.
           ret (st\<lparr>crawl_pages := crawl_pages st @ [pageInfo],
                    crawl_results := crawl_results st @ console_checks url pageInfo @
                      content_check url pageInfo bodyText @ error_text_check url bodyText,
                    toVisit := toVisit st @
                      map href (filter (\<lambda>link. isInternal link \<and>
                        \<not> Set_has (visited st) (normalizeUrl parse (href link)))
                        (page_links pageInfo))\<rparr>)))))"

text \<open>
  The \<open>while\<close> loop. The loop runs while \<open>toVisit\<close> is not empty and \<open>visited\<close> holds fewer
  than \<open>MAX_PAGES\<close> members; \<open>toVisit.shift()\<close> takes the head of the queue.
\<close>

function crawl_loop ::
  "(string \<Rightarrow> URL option) \<Rightarrow> world \<Rightarrow> crawl \<Rightarrow> crawl io" where
  "crawl_loop parse w st eng =
     (case toVisit st of
        [] \<Rightarrow> (Inr st, eng)
      | url # rest \<Rightarrow>
          if \<not> Set_size (visited st) < MAX_PAGES then (Inr st, eng)
          else
            (let normalizedUrl = normalizeUrl parse url;
                 st1 = st\<lparr>toVisit := rest\<rparr>
             in if Set_has (visited st1) normalizedUrl then crawl_loop parse w st1 eng
                else
                  (case visit parse w url
                          (st1\<lparr>visited := Set_add (visited st1) normalizedUrl\<rparr>) eng of
                     (Inl err, eng') \<Rightarrow> (Inl err, eng')
                   | (Inr st2, eng') \<Rightarrow> crawl_loop parse w st2 eng')))"
  by pat_completeness auto
termination
proof (relation "measures [\<lambda>(parse, w, st, eng). MAX_PAGES - length (visited st),
                           \<lambda>(parse, w, st, eng). length (toVisit st)]", goal_cases)
  case 1
  show ?case by simp
next
  case (2 parse w st eng url rest)
  then show ?case by simp
next
  case (3 parse w st eng url rest normalizedUrl st1 r eng' st2)
  have kept: "visited st' = visited s" if "visit parse w url s eng = (Inr st', eng')" for s st'
    using that
    by (auto simp: visit_def bnd_def ret_def split: prod.splits sum.splits if_splits)
  from 3 have "visited st2 = Set_add (visited st) (normalizeUrl parse url)"
    using kept [of _ st2] by simp
  moreover from 3 have "length (visited st) < MAX_PAGES"
    by (simp add: Set_size_def)
  then have "MAX_PAGES - Suc (length (visited st)) < MAX_PAGES - length (visited st)"
    by arith
  ultimately show ?case
    using 3 by (simp add: Set_add_def Set_has_def)
qed

declare crawl_loop.simps [simp del]

definition crawl_from :: "(string \<Rightarrow> URL option) \<Rightarrow> world \<Rightarrow> string \<Rightarrow> crawl io" where
  "crawl_from parse w baseUrl =
     crawl_loop parse w
       \<lparr>crawl_results = [], crawl_pages = [], visited = [], toVisit = [baseUrl]\<rparr>"

definition discoverAndTestPages ::
  "(string \<Rightarrow> URL option) \<Rightarrow> world \<Rightarrow> string \<Rightarrow> (TestResult list \<times> PageInfo list) io" where
  "discoverAndTestPages parse w baseUrl =
     bnd (crawl_from parse w baseUrl) (\<lambda>st. ret (crawl_results st, crawl_pages st))"

text \<open>
  What a run of the crawler did to the browser: the calls logged since it started, the
  URLs passed to \<open>goto\<close> among them, and those whose navigation succeeded.
\<close>

definition trace_since :: "engine \<Rightarrow> engine \<Rightarrow> call list" where
  "trace_since e e' = drop (length (calls e)) (calls e')"

fun gotos :: "call list \<Rightarrow> string list" where
  "gotos [] = []"
| "gotos (Goto u ok # cs) = u # gotos cs"
| "gotos (c # cs) = gotos cs"

fun loaded_gotos :: "call list \<Rightarrow> string list" where
  "loaded_gotos [] = []"
| "loaded_gotos (Goto u ok # cs) = (if ok then u # loaded_gotos cs else loaded_gotos cs)"
| "loaded_gotos (c # cs) = loaded_gotos cs"

text \<open>
  The invariant of the loop, for the calls \<open>tr\<close> logged since the crawl started: every
  member of \<open>visited\<close> is the normal form of one URL passed to \<open>goto\<close>, in that order and
  without repetition; at most \<open>MAX_PAGES\<close> of them; and \<open>pages\<close> holds one snapshot per
  navigation that succeeded.
\<close>

definition crawl_inv :: "(string \<Rightarrow> URL option) \<Rightarrow> crawl \<Rightarrow> call list \<Rightarrow> bool" where
  "crawl_inv parse st tr =
     (visited st = map (normalizeUrl parse) (gotos tr) \<and> distinct (visited st) \<and>
      Set_size (visited st) \<le> MAX_PAGES \<and>
      map page_url (crawl_pages st) = loaded_gotos tr)"

subsection \<open>A model of the URL constructor on canonical http and https URLs\<close>

text \<open>
  To run \<open>normalizeUrl\<close> on concrete strings the parameter \<open>parse\<close> needs a value.
  \<open>URL_http\<close> follows the URL Standard on the strings it accepts: a lower-case scheme
  \<open>http\<close> or \<open>https\<close>, \<open>://\<close>, a host of lower-case letters and single dots that starts
  and ends with a letter, an optional port of one to four digits without leading zero
  that is not the scheme's default port, then an optional path of letters, digits and
  \<open>/ - _ ~\<close>, and an optional query or fragment. On such a string the constructor
  changes nothing: \<open>origin\<close> is the text up to the path and \<open>pathname\<close> is the path,
  \<open>/\<close> when there is none. Every other string is rejected by \<open>URL_http\<close>, although the
  constructor accepts many of them after rewriting them; statements about \<open>URL_http\<close>
  are statements about the accepted strings.
\<close>

definition is_lower :: "char \<Rightarrow> bool" where
  "is_lower c = (let n = of_char c :: nat in 97 \<le> n \<and> n \<le> 122)"

definition is_upper :: "char \<Rightarrow> bool" where
  "is_upper c = (let n = of_char c :: nat in 65 \<le> n \<and> n \<le> 90)"

definition is_digit :: "char \<Rightarrow> bool" where
  "is_digit c = (let n = of_char c :: nat in 48 \<le> n \<and> n \<le> 57)"

definition host_char :: "char \<Rightarrow> bool" where
  "host_char c = (is_lower c \<or> c = CHR ''.'')"

definition path_char :: "char \<Rightarrow> bool" where
  "path_char c = (is_lower c \<or> is_upper c \<or> is_digit c \<or> c \<in> set ''/-_~'')"

definition valid_host :: "string \<Rightarrow> bool" where
  "valid_host h =
     (h \<noteq> [] \<and> list_all host_char h \<and> is_lower (hd h) \<and> is_lower (last h) \<and>
      \<not> str_includes h ''..'')"

definition default_port :: "string \<Rightarrow> string" where
  "default_port scheme = (if scheme = ''http'' then ''80'' else ''443'')"

definition valid_port :: "string \<Rightarrow> string \<Rightarrow> bool" where
  "valid_port scheme p =
     (p \<noteq> [] \<and> length p \<le> 4 \<and> list_all is_digit p \<and> hd p \<noteq> CHR ''0'' \<and>
      p \<noteq> default_port scheme)"

definition valid_authority :: "string \<Rightarrow> string \<Rightarrow> bool" where
  "valid_authority scheme a =
     (let h = takeWhile (\<lambda>c. c \<noteq> CHR '':'') a; p = dropWhile (\<lambda>c. c \<noteq> CHR '':'') a
      in valid_host h \<and> (p = [] \<or> valid_port scheme (tl p)))"

definition http_scheme :: "string \<Rightarrow> string option" where
  "http_scheme s =
     (if prefix ''http://'' s then Some ''http''
      else if prefix ''https://'' s then Some ''https'' else None)"

definition authority_end :: "char \<Rightarrow> bool" where
  "authority_end c = (c = CHR ''/'' \<or> c = CHR ''?'' \<or> c = CHR ''#'')"

definition path_end :: "char \<Rightarrow> bool" where
  "path_end c = (c = CHR ''?'' \<or> c = CHR ''#'')"

definition parse_after_scheme :: "string \<Rightarrow> string \<Rightarrow> URL option" where
  "parse_after_scheme scheme rest =
     (let authority = takeWhile (\<lambda>c. \<not> authority_end c) rest;
          path = takeWhile (\<lambda>c. \<not> path_end c) (dropWhile (\<lambda>c. \<not> authority_end c) rest)
      in if valid_authority scheme authority \<and> list_all path_char path
         then Some \<lparr>origin = scheme @ ''://'' @ authority,
                    pathname = (if path = [] then ''/'' else path)\<rparr>
         else None)"

definition URL_http :: "string \<Rightarrow> URL option" where
  "URL_http s =
     (case http_scheme s of
        None \<Rightarrow> None
      | Some scheme \<Rightarrow> parse_after_scheme scheme (drop (length scheme + 3) s))"

section \<open>The form tester (formTester.ts)\<close>

definition TEST_DATA :: "(string \<times> string) list" where
  "TEST_DATA =
     [(''email'', ''testuser@example.com''),
      (''password'', ''TestPass123!''),
      (''text'', ''Test input value''),
      (''name'', ''John Doe''),
      (''tel'', ''1234567890''),
      (''phone'', ''1234567890''),
      (''number'', ''42''),
      (''url'', ''https://example.com''),
      (''search'', ''test search query''),
      (''date'', ''2024-01-15''),
      (''color'', ''#ff0000'')]"

text \<open>
  \<open>TEST_DATA.email\<close> is \<open>the (map_of TEST_DATA ''email'')\<close>, a key of the table;
  \<open>TEST_DATA[field.type] || TEST_DATA.text\<close> takes the entry when there is one and it is
  not the empty string. The table is a \<open>Record<string, string>\<close> and the model reads
  its own eleven keys only; \<open>field.type\<close> is the \<open>type\<close> property of an input,
  select or textarea element.
\<close>

definition getTestValue :: "FieldInfo \<Rightarrow> string" where
  "getTestValue field =
     (let identifier =
            toLowerCase (field_name field @ '' '' @ field_label field @ '' '' @
              field_placeholder field)
      in if str_includes identifier ''email'' then the (map_of TEST_DATA ''email'')
         else if str_includes identifier ''password'' \<or> str_includes identifier ''pass''
           then the (map_of TEST_DATA ''password'')
         else if str_includes identifier ''name'' \<or> str_includes identifier ''first'' \<or>
                 str_includes identifier ''last''
           then the (map_of TEST_DATA ''name'')
         else if str_includes identifier ''phone'' \<or> str_includes identifier ''tel''
           then the (map_of TEST_DATA ''tel'')
         else if str_includes identifier ''url'' \<or> str_includes identifier ''website''
           then the (map_of TEST_DATA ''url'')
         else if str_includes identifier ''search'' then the (map_of TEST_DATA ''search'')
         else if str_includes identifier ''date'' then the (map_of TEST_DATA ''date'')
         else if truthy (map_of TEST_DATA (field_type field))
           then the (map_of TEST_DATA (field_type field))
         else the (map_of TEST_DATA ''text''))"

text \<open>\<open>a || b\<close> on strings.\<close>

definition or_else :: "string \<Rightarrow> string \<Rightarrow> string" where
  "or_else a b = (if a \<noteq> [] then a else b)"

definition field_selector :: "FieldInfo \<Rightarrow> string option" where
  "field_selector field =
     (if field_id field \<noteq> [] then Some (''#'' @ field_id field)
      else if field_name field \<noteq> []
        then Some (''[name='' @ [CHR 0x22] @ field_name field @ [CHR 0x22] @ '']'')
      else None)"

text \<open>
  The loop over the fields of one form; the pair is \<open>(allFieldsFilled, fieldErrors)\<close>.
\<close>

fun fill_fields ::
  "world \<Rightarrow> FieldInfo list \<Rightarrow> bool \<times> string list \<Rightarrow> (bool \<times> string list) io" where
  "fill_fields w [] acc = ret acc"
| "fill_fields w (field # rest) (allFieldsFilled, fieldErrors) =
     (if field_type field = ''hidden'' \<or> field_type field = ''submit''
      then fill_fields w rest (allFieldsFilled, fieldErrors)
      else
        (case field_selector field of
           None \<Rightarrow>
             fill_fields w rest
               (False, fieldErrors @
                  [''Could not find selector for field: '' @
                   or_else (field_label field) (or_else (field_name field) ''unknown'')])
         | Some selector \<Rightarrow>
             if field_type field = ''select'' \<or> field_type field = ''select-one'' then
               bnd (selectOption w selector []) (\<lambda>selected.
                 fill_fields w rest
                   (if \<not> selected
                    then (False, fieldErrors @ [''Could not interact with select: '' @ selector])
                    else (allFieldsFilled, fieldErrors)))
             else if field_type field = ''checkbox'' \<or> field_type field = ''radio'' then
               bnd (click w selector) (\<lambda>clicked.
                 fill_fields w rest
                   (if \<not> success clicked
                    then (False, fieldErrors @
                            [''Could not click '' @ field_type field @ '': '' @ selector])
                    else (allFieldsFilled, fieldErrors)))
             else
               bnd (fillField w selector (getTestValue field)) (\<lambda>filled.
                 fill_fields w rest
                   (if \<not> filled
                    then (False, fieldErrors @
                            [''Could not fill field: '' @ selector @ '' ('' @
                             or_else (field_label field) (field_name field) @ '')''])
                    else (allFieldsFilled, fieldErrors)))))"

definition formId_of :: "FormInfo \<Rightarrow> nat \<Rightarrow> string" where
  "formId_of form i =
     (if truthy (form_id form) then the (form_id form) else ''form-'' @ show_nat (i + 1))"

definition submit_button_css :: string where
  "submit_button_css = '' button[type='' @ [CHR 0x22] @ ''submit'' @ [CHR 0x22] @ '']''"

definition submit_input_css :: string where
  "submit_input_css = '' input[type='' @ [CHR 0x22] @ ''submit'' @ [CHR 0x22] @ '']''"

text \<open>The submit selector of test 3, and the one of test 4 (which differs for a form without id).\<close>

definition submitSelector :: "FormInfo \<Rightarrow> nat \<Rightarrow> string" where
  "submitSelector form i =
     (if truthy (form_id form)
      then ''#'' @ the (form_id form) @ submit_button_css @ '', #'' @ the (form_id form) @
           submit_input_css
      else ''form:nth-of-type('' @ show_nat (i + 1) @ '')'' @ submit_button_css @
           '', form:nth-of-type('' @ show_nat (i + 1) @ '')'' @ submit_input_css)"

definition emptySubmitSelector :: "FormInfo \<Rightarrow> nat \<Rightarrow> string" where
  "emptySubmitSelector form i =
     (if truthy (form_id form)
      then ''#'' @ the (form_id form) @ submit_button_css @ '', #'' @ the (form_id form) @
           submit_input_css
      else ''form:nth-of-type('' @ show_nat (i + 1) @ '')'' @ submit_button_css)"

text \<open>Test 3 of a form that has a submit button: click it and compare the console errors.\<close>

definition submit_form ::
  "world \<Rightarrow> string \<Rightarrow> FormInfo \<Rightarrow> nat \<Rightarrow> TestResult list \<Rightarrow> TestResult list io" where
  "submit_form w pageUrl form i results =
     (let formId = formId_of form i in
      bnd getConsoleErrors (\<lambda>errs.
      let errorsBefore = length errs in
      bnd (click w (submitSelector form i)) (\<lambda>clickResult.
        if \<not> success clickResult then
          ret (results @
                [\<lparr>page = pageUrl, test = formId @ ''-submit'', status = Fail,
                  message = ''Could not click submit button for '' @ [CHR 0x22] @ formId @
                    [CHR 0x22],
                  screenshot = None, details = click_error clickResult\<rparr>])
        else
          bnd getConsoleErrors (\<lambda>errorsAfter.
          let newErrors = drop errorsBefore errorsAfter in
          if length newErrors > 0 then
            bnd (take_screenshot w) (\<lambda>shot.
              ret (results @
                    [\<lparr>page = pageUrl, test = formId @ ''-submit'', status = Fail,
                      message = ''Form '' @ [CHR 0x22] @ formId @ [CHR 0x22] @
                        '' submission caused '' @ show_nat (length newErrors) @ '' error(s)'',
                      screenshot = Some shot,
                      details = Some (join nl (map error_text newErrors))\<rparr>]))
          else
            bnd (take_screenshot w) (\<lambda>shot.
              ret (results @
                    [\<lparr>page = pageUrl, test = formId @ ''-submit'', status = Pass,
                      message = ''Form '' @ [CHR 0x22] @ formId @ [CHR 0x22] @
                        '' submitted without errors'',
                      screenshot = Some shot, details = None\<rparr>]))))))"

text \<open>One pass of the loop over the forms, for the form at index \<open>i\<close>.\<close>

definition test_form ::
  "world \<Rightarrow> string \<Rightarrow> FormInfo \<Rightarrow> nat \<Rightarrow> TestResult list \<Rightarrow> TestResult list io" where
  "test_form w pageUrl form i results0 =
     (let formId = formId_of form i;
          results =
            (if \<not> truthy (submitButton form) \<and> length (form_fields form) > 0
             then results0 @
                    [\<lparr>page = pageUrl, test = formId @ ''-submit-button'', status = Warning,
                      message = ''Form '' @ [CHR 0x22] @ formId @ [CHR 0x22] @
                        '' has no visible submit button'',
                      screenshot = None, details = None\<rparr>]
             else results0)
      in if length (form_fields form) = 0 then
           ret (results @
                 [\<lparr>page = pageUrl, test = formId @ ''-fields'', status = Warning,
                   message = ''Form '' @ [CHR 0x22] @ formId @ [CHR 0x22] @
                     '' has no input fields'',
                   screenshot = None, details = None\<rparr>])
         else
           bnd (goto w pageUrl) (\<lambda>_.
           bnd (fill_fields w (form_fields form) (True, [])) (\<lambda>(allFieldsFilled, fieldErrors).
           let results =
                 results @
                 [if allFieldsFilled
                  then \<lparr>page = pageUrl, test = formId @ ''-fill'', status = Pass,
                        message = ''All fields in '' @ [CHR 0x22] @ formId @ [CHR 0x22] @
                          '' were filled successfully'',
                        screenshot = None, details = None\<rparr>
                  else \<lparr>page = pageUrl, test = formId @ ''-fill'', status = Fail,
                        message = ''Some fields in '' @ [CHR 0x22] @ formId @ [CHR 0x22] @
                          '' could not be filled'',
                        screenshot = None, details = Some (join nl fieldErrors)\<rparr>]
           in
           bnd (if truthy (submitButton form) then submit_form w pageUrl form i results
                else ret results) (\<lambda>results.
           bnd (goto w pageUrl) (\<lambda>_.
           let requiredFields = filter field_required (form_fields form) in
           if length requiredFields > 0 \<and> truthy (submitButton form) then
             bnd (click w (emptySubmitSelector form i)) (\<lambda>_.
             bnd (getCurrentUrl w) (\<lambda>currentUrl.
               ret (results @
                     [if currentUrl = pageUrl \<or> currentUrl = pageUrl @ ''/''
                      then \<lparr>page = pageUrl, test = formId @ ''-validation'', status = Pass,
                            message = ''Form '' @ [CHR 0x22] @ formId @ [CHR 0x22] @
                              '' correctly blocks empty submission (has required fields)'',
                            screenshot = None, details = None\<rparr>
                      else \<lparr>page = pageUrl, test = formId @ ''-validation'',
                            status = Warning,
                            message = ''Form '' @ [CHR 0x22] @ formId @ [CHR 0x22] @
                              '' has required fields but submitted empty (validation may be missing)'',
                            screenshot = None, details = None\<rparr>])))
           else ret results)))))"

fun testForms_loop ::
  "world \<Rightarrow> string \<Rightarrow> FormInfo list \<Rightarrow> nat \<Rightarrow> TestResult list \<Rightarrow> TestResult list io" where
  "testForms_loop w pageUrl [] i results = ret results"
| "testForms_loop w pageUrl (form # rest) i results =
     bnd (test_form w pageUrl form i results) (\<lambda>results'.
       testForms_loop w pageUrl rest (i + 1) results')"

definition testForms :: "world \<Rightarrow> string \<Rightarrow> FormInfo list \<Rightarrow> TestResult list io" where
  "testForms w pageUrl forms =
     (if length forms = 0 then
        ret [\<lparr>page = pageUrl, test = ''form-presence'', status = Pass,
              message = ''No forms found on page (nothing to test)'',
              screenshot = None, details = None\<rparr>]
      else testForms_loop w pageUrl forms 0 [])"









section \<open>The click tester (clickTester.ts)\<close>

definition testable :: "ButtonInfo \<Rightarrow> bool" where
  "testable b = (button_type b \<noteq> ''submit'' \<and> \<not> button_disabled b \<and> length (button_text b) > 0)"

definition click_test_id :: "ButtonInfo \<Rightarrow> string" where
  "click_test_id button = ''click-button-'' @ [CHR 0x22] @ button_text button @ [CHR 0x22]"

text \<open>One pass of the loop over the testable buttons: the outcome it pushes.\<close>

definition test_button :: "world \<Rightarrow> string \<Rightarrow> ButtonInfo \<Rightarrow> TestResult io" where
  "test_button w pageUrl button =
     bnd (goto w pageUrl) (\<lambda>_.
     bnd getConsoleErrors (\<lambda>errs.
     let errorsBefore = length errs in
     bnd (click w (button_selector button)) (\<lambda>clickResult.
       if \<not> success clickResult then
         ret \<lparr>page = pageUrl, test = click_test_id button, status = Fail,
              message = ''Button '' @ [CHR 0x22] @ button_text button @ [CHR 0x22] @
                '' could not be clicked'',
              screenshot = None, details = click_error clickResult\<rparr>
       else
         bnd getConsoleErrors (\<lambda>errorsAfter.
         let newErrors = drop errorsBefore errorsAfter in
         if length newErrors > 0 then
           bnd (take_screenshot w) (\<lambda>shot.
             ret \<lparr>page = pageUrl, test = click_test_id button, status = Fail,
                  message = ''Clicking '' @ [CHR 0x22] @ button_text button @ [CHR 0x22] @
                    '' caused '' @ show_nat (length newErrors) @ '' error(s)'',
                  screenshot = Some shot,
                  details = Some (join nl (map error_text newErrors))\<rparr>)
         else
           ret \<lparr>page = pageUrl, test = click_test_id button, status = Pass,
                message = ''Button '' @ [CHR 0x22] @ button_text button @ [CHR 0x22] @
                  '' clicked successfully'' @
                  (if truthy (newUrl clickResult)
                   then '' (navigated to '' @ the (newUrl clickResult) @ '')'' else []),
                screenshot = None, details = None\<rparr>))))"

fun testButtons_loop ::
  "world \<Rightarrow> string \<Rightarrow> ButtonInfo list \<Rightarrow> TestResult list \<Rightarrow> TestResult list io" where
  "testButtons_loop w pageUrl [] results = ret results"
| "testButtons_loop w pageUrl (button # rest) results =
     bnd (test_button w pageUrl button) (\<lambda>r.
       testButtons_loop w pageUrl rest (results @ [r]))"

definition testButtons :: "world \<Rightarrow> string \<Rightarrow> ButtonInfo list \<Rightarrow> TestResult list io" where
  "testButtons w pageUrl buttons =
     (let testableButtons = filter testable buttons in
      if length testableButtons = 0 then ret []
      else testButtons_loop w pageUrl testableButtons [])"

section \<open>The visual checker (visualChecker.ts): overlapping elements\<close>

text \<open>
  \<open>checkOverlaps\<close> runs inside the page over the elements matched by
  \<open>button, a, input, select, textarea\<close>. An element is given by what the function reads
  of it: its tag name, its id (empty when it has none) and its bounding rectangle, whose
  six numbers are compared and never computed with.
\<close>

record DOMRect =
  rect_left :: real
  rect_top :: real
  rect_right :: real
  rect_bottom :: real
  rect_width :: real
  rect_height :: real

record Element =
  tagName :: string
  element_id :: string
  boundingClientRect :: DOMRect

definition element_name :: "Element \<Rightarrow> string" where
  "element_name el = tagName el @ (if element_id el \<noteq> [] then ''#'' @ element_id el else [])"

text \<open>The inner loop: the element at index \<open>i\<close> against each later element.\<close>

fun overlaps_of :: "Element \<Rightarrow> Element list \<Rightarrow> string list \<Rightarrow> string list" where
  "overlaps_of el1 [] overlaps = overlaps"
| "overlaps_of el1 (el2 # later) overlaps =
     (let r1 = boundingClientRect el1; r2 = boundingClientRect el2 in
      if rect_width r1 = 0 \<or> rect_height r1 = 0 \<or> rect_width r2 = 0 \<or> rect_height r2 = 0
      then overlaps_of el1 later overlaps
      else
        (let overlap =
               (rect_left r1 < rect_right r2 \<and> rect_right r1 > rect_left r2 \<and>
                rect_top r1 < rect_bottom r2 \<and> rect_bottom r1 > rect_top r2)
         in if overlap
            then overlaps_of el1 later
                   (overlaps @ [element_name el1 @ '' overlaps with '' @ element_name el2])
            else overlaps_of el1 later overlaps))"

text \<open>The outer loop, with its \<open>break\<close> after the inner loop.\<close>

fun overlaps_from :: "Element list \<Rightarrow> string list \<Rightarrow> string list" where
  "overlaps_from [] overlaps = overlaps"
| "overlaps_from (el # later) overlaps =
     (let overlaps' = overlaps_of el later overlaps in
      if length overlaps' > 5 then overlaps' else overlaps_from later overlaps')"

definition checkOverlaps :: "Element list \<Rightarrow> string list" where
  "checkOverlaps interactiveEls = overlaps_from interactiveEls []"

definition button_box :: Element where
  "button_box =
     \<lparr>tagName = ''BUTTON'', element_id = [],
      boundingClientRect =
        \<lparr>rect_left = 0, rect_top = 0, rect_right = 100, rect_bottom = 40,
         rect_width = 100, rect_height = 40\<rparr>\<rparr>"

section \<open>Concrete inputs\<close>

text \<open>
  A browser in which every navigation and interaction succeeds and nothing is logged to
  the console; an engine with a page open and nothing logged; a browser that logs two
  errors while the page loads and three while the first click after it is awaited.
\<close>

definition quiet_world :: world where
  "quiet_world =
     \<lparr>arrivals = (\<lambda>t. []), navigation = (\<lambda>t url. Inr True), dom_title = (\<lambda>t. ''Demo''),
      dom_anchors = (\<lambda>t. []), dom_forms = (\<lambda>t. []), dom_buttons = (\<lambda>t. []),
      dom_text = (\<lambda>t. ''Welcome to the demo site''), capture = (\<lambda>t. ''iVBORw0KGgo=''),
      clicking = (\<lambda>t selector. Inr None), typing = (\<lambda>t selector v. True),
      selecting = (\<lambda>t selector v. True), location = (\<lambda>t. ''http://localhost:3000'')\<rparr>"




definition launched_engine :: engine where
  "launched_engine = \<lparr>has_browser = True, has_page = False, consoleErrors = [], calls = []\<rparr>"

text \<open>
  A site whose first page links to \<open>/about\<close>, \<open>/contact/\<close>, itself and another origin;
  the navigation to \<open>/about\<close> fails. (The anchors of the first page are read by the
  third call of the run.)
\<close>

definition three_pages :: world where
  "three_pages =
     quiet_world\<lparr>dom_anchors := (\<lambda>t.
        if t = 2
        then [(''About'', ''http://localhost:3000/about''),
              (''Contact'', ''http://localhost:3000/contact/''),
              (''Home'', ''http://localhost:3000/''),
              (''Elsewhere'', ''http://example.com/'')]
        else [(''Home'', ''http://localhost:3000/'')]),
      navigation := (\<lambda>t url. Inr (url \<noteq> ''http://localhost:3000/about''))\<rparr>"



section \<open>Properties of the report\<close>

lemma status_partition:
  "length (filter (\<lambda>r. status r = Pass) rs) + length (filter (\<lambda>r. status r = Fail) rs) +
   length (filter (\<lambda>r. status r = Warning) rs) = length rs"
proof (induction rs)
  case Nil
  show ?case by simp
next
  case (Cons r rs)
  then show ?case by (cases "status r") simp_all
qed

text \<open>
  C1. The report compiled from any list of outcomes counts every outcome once:
  passed + failed + warnings = totalTests, and totalTests is the length of the
  list of results the report carries.
\<close>

theorem compile_counts:
  "report_passed (compile now url rs) + report_failed (compile now url rs) +
     report_warnings (compile now url rs) = report_totalTests (compile now url rs)
   \<and> report_totalTests (compile now url rs) = length (report_results (compile now url rs))
   \<and> report_results (compile now url rs) = rs
   \<and> report_passed (compile now url rs) = length (filter (\<lambda>r. status r = Pass) rs)
   \<and> report_failed (compile now url rs) = length (filter (\<lambda>r. status r = Fail) rs)
   \<and> report_warnings (compile now url rs) = length (filter (\<lambda>r. status r = Warning) rs)"
  using status_partition [of rs] by (simp add: compile_def Let_def)

lemma fold_append_concat: "fold (\<lambda>r s. s @ g r) xs init = init @ concat (map g xs)"
  by (induction xs arbitrary: init) simp_all

text \<open>
  C6, as the claim states it, fails: when no outcome failed and some outcome is a
  warning, the summary has no failures section at all. For the list \<open>one_warning\<close>
  the summary is the header followed by the warnings section, and the failures heading
  does not occur in it.
\<close>

theorem summary_without_failures_section:
  "report_failed (compile '''' ''http://localhost:3000'' one_warning) = 0
   \<and> report_warnings (compile '''' ''http://localhost:3000'' one_warning) = 1
   \<and> \<not> str_includes (report_summary (compile '''' ''http://localhost:3000'' one_warning))
         failures_heading
   \<and> report_summary (compile '''' ''http://localhost:3000'' one_warning) =
       summary_header ''http://localhost:3000'' 0 0 1 @ warnings_section one_warning"
  by code_simp

text \<open>
  C6, amended. The summary of a compiled report is the header with the three counts,
  followed by the success sentence alone when nothing failed and nothing warned;
  otherwise by the failures section, present only when some outcome failed, and then
  the warnings section, present only when some outcome is a warning.
\<close>

theorem summary_sections:
  "report_summary (compile now url rs) =
     summary_header url (report_passed (compile now url rs))
       (report_failed (compile now url rs)) (report_warnings (compile now url rs)) @
     (if report_failed (compile now url rs) = 0 \<and> report_warnings (compile now url rs) = 0
      then all_passed_sentence
      else (if report_failed (compile now url rs) > 0 then failures_section rs else []) @
           (if report_warnings (compile now url rs) > 0 then warnings_section rs else []))"
  by (simp add: compile_def buildSummary_def Let_def fold_append_concat
      failures_section_def warnings_section_def)

section \<open>The engine's methods on an open page\<close>



section \<open>Properties of the crawler\<close>











lemma gotos_append: "gotos (xs @ ys) = gotos xs @ gotos ys"
  by (induction xs rule: gotos.induct) simp_all

lemma loaded_gotos_append: "loaded_gotos (xs @ ys) = loaded_gotos xs @ loaded_gotos ys"
  by (induction xs rule: loaded_gotos.induct) simp_all

lemma loaded_gotos_Nil: "gotos cs = [] \<Longrightarrow> loaded_gotos cs = []"
  by (induction cs rule: gotos.induct) simp_all

lemma visit_not_launched:
  "\<not> has_browser eng \<Longrightarrow> visit parse w url st eng = (Inl BrowserNotLaunched, eng)"
  by (simp add: visit_def bnd_def newPage_def)

lemma visit_launched:
  assumes "has_browser eng"
  shows "\<exists>st' eng' ok tl.
           visit parse w url st eng = (Inr st', eng') \<and> has_browser eng' \<and>
           calls eng' = calls eng @ NewPage # Goto url ok # tl \<and> gotos tl = [] \<and>
           visited st' = visited st \<and>
           map page_url (crawl_pages st') = map page_url (crawl_pages st) @ (if ok then [url] else [])"
  using assms
  by (auto simp: visit_def bnd_def ret_def newPage_def goto_def getPageInfo_def getPageText_def
      take_screenshot_def awaited_def logged_def Let_def split: sum.splits)

lemma crawl_loop_inv:
  assumes "has_browser eng" and "calls eng = c0 @ tr" and "crawl_inv parse st tr"
  shows "\<exists>st' eng' tr'. crawl_loop parse w st eng = (Inr st', eng') \<and> has_browser eng' \<and>
           calls eng' = c0 @ tr' \<and> crawl_inv parse st' tr'"
  using assms
proof (induction parse w st eng arbitrary: tr rule: crawl_loop.induct)
  case (1 parse w st eng)
  show ?case
  proof (cases "toVisit st")
    case Nil
    with 1 show ?thesis by (subst crawl_loop.simps) auto
  next
    case (Cons url rest)
    show ?thesis
    proof (cases "Set_size (visited st) < MAX_PAGES")
      case False
      with Cons 1 show ?thesis by (subst crawl_loop.simps) auto
    next
      case room: True
      then have room': "\<not> \<not> Set_size (visited st) < MAX_PAGES" by simp
      define n where "n = normalizeUrl parse url"
      define st1 where "st1 = st\<lparr>toVisit := rest\<rparr>"
      show ?thesis
      proof (cases "Set_has (visited st1) n")
        case True
        have inv1: "crawl_inv parse st1 tr"
          using "1.prems"(3) by (auto simp: crawl_inv_def st1_def)
        have "\<exists>st' eng' tr'. crawl_loop parse w st1 eng = (Inr st', eng') \<and> has_browser eng' \<and>
                calls eng' = c0 @ tr' \<and> crawl_inv parse st' tr'"
          using "1.IH"(1) [OF Cons room' n_def st1_def True "1.prems"(1,2) inv1] .
        moreover have "crawl_loop parse w st eng = crawl_loop parse w st1 eng"
          using Cons room True by (subst crawl_loop.simps) (simp add: n_def st1_def)
        ultimately show ?thesis by simp
      next
        case False
        define st1a where "st1a = st1\<lparr>visited := Set_add (visited st1) n\<rparr>"
        obtain st2 eng2 ok tl where
          v: "visit parse w url st1a eng = (Inr st2, eng2)" and hb: "has_browser eng2" and
          c: "calls eng2 = calls eng @ NewPage # Goto url ok # tl" and g: "gotos tl = []" and
          vis: "visited st2 = visited st1a" and
          pg: "map page_url (crawl_pages st2) =
                 map page_url (crawl_pages st1a) @ (if ok then [url] else [])"
          using visit_launched [OF "1.prems"(1), of parse w url st1a] by blast
        define tr2 where "tr2 = tr @ NewPage # Goto url ok # tl"
        have c2: "calls eng2 = c0 @ tr2"
          using c "1.prems"(2) by (simp add: tr2_def)
        have inv2: "crawl_inv parse st2 tr2"
          using "1.prems"(3) False room g vis pg
          by (auto simp: crawl_inv_def tr2_def st1a_def st1_def n_def Set_add_def Set_has_def
              Set_size_def gotos_append loaded_gotos_append loaded_gotos_Nil)
        have "\<exists>st' eng' tr'. crawl_loop parse w st2 eng2 = (Inr st', eng') \<and> has_browser eng' \<and>
                calls eng' = c0 @ tr' \<and> crawl_inv parse st' tr'"
          using "1.IH"(2) [OF Cons room' n_def st1_def False _ _ hb c2 inv2] v
          by (simp add: st1a_def)
        moreover have "crawl_loop parse w st eng = crawl_loop parse w st2 eng2"
          using Cons room False v
          by (subst crawl_loop.simps) (simp add: n_def st1_def st1a_def Let_def)
        ultimately show ?thesis by simp
      qed
    qed
  qed
qed


lemma crawl_from_not_launched:
  "\<not> has_browser eng \<Longrightarrow> crawl_from parse w baseUrl eng = (Inl BrowserNotLaunched, eng)"
  by (simp add: crawl_from_def crawl_loop.simps [of parse w _ eng] Set_size_def Set_has_def
      MAX_PAGES_def visit_not_launched)

lemma crawl_from_launched:
  assumes "has_browser eng"
  shows "\<exists>st eng' tr. crawl_from parse w baseUrl eng = (Inr st, eng') \<and>
           calls eng' = calls eng @ tr \<and> crawl_inv parse st tr"
proof -
  have "crawl_inv parse \<lparr>crawl_results = [], crawl_pages = [], visited = [], toVisit = [baseUrl]\<rparr> []"
    by (simp add: crawl_inv_def Set_size_def)
  from crawl_loop_inv [OF assms _ this, of "calls eng" w] show ?thesis
    by (auto simp: crawl_from_def)
qed

text \<open>
  C2. In every run of \<open>discoverAndTestPages\<close>, from any engine state, for any base URL,
  any URL parser and any answers of the browser: the URLs passed to \<open>goto\<close> during the
  run have pairwise different normal forms (no normalized URL is navigated to twice),
  and there are at most \<open>MAX_PAGES\<close> = 10 of them. The run is the total function
  \<open>discoverAndTestPages\<close>, so it always ends.
\<close>

theorem crawl_page_cap:
  "MAX_PAGES = 10 \<and> prefix (calls eng) (calls (snd (discoverAndTestPages parse w baseUrl eng))) \<and>
   distinct (map (normalizeUrl parse)
     (gotos (trace_since eng (snd (discoverAndTestPages parse w baseUrl eng))))) \<and>
   card (set (map (normalizeUrl parse)
     (gotos (trace_since eng (snd (discoverAndTestPages parse w baseUrl eng)))))) \<le> MAX_PAGES \<and>
   length (gotos (trace_since eng (snd (discoverAndTestPages parse w baseUrl eng)))) \<le> MAX_PAGES"
proof (cases "has_browser eng")
  case False
  then show ?thesis
    by (simp add: discoverAndTestPages_def bnd_def crawl_from_not_launched trace_since_def
        MAX_PAGES_def)
next
  case True
  from crawl_from_launched [OF True, of parse w baseUrl] obtain st eng' tr where
    r: "crawl_from parse w baseUrl eng = (Inr st, eng')" and c: "calls eng' = calls eng @ tr" and
    inv: "crawl_inv parse st tr"
    by blast
  have e: "snd (discoverAndTestPages parse w baseUrl eng) = eng'"
    using r by (simp add: discoverAndTestPages_def bnd_def ret_def)
  have t: "trace_since eng eng' = tr" using c by (simp add: trace_since_def)
  have d: "distinct (map (normalizeUrl parse) (gotos tr))"
    and l: "length (gotos tr) \<le> MAX_PAGES"
    using inv by (auto simp: crawl_inv_def Set_size_def dest: arg_cong [where f = length])
  have "card (set (map (normalizeUrl parse) (gotos tr))) \<le> length (map (normalizeUrl parse) (gotos tr))"
    by (rule card_length)
  with d l show ?thesis
    using c by (simp add: e t MAX_PAGES_def)
qed

text \<open>
  C9. A run of the crawler on an engine without a browser throws at the first
  \<open>newPage\<close>, before any navigation. Every other run returns, and then \<open>visited\<close> is
  exactly the list of normal forms of the URLs passed to \<open>goto\<close>, failed navigations
  included: each attempt takes one of the \<open>MAX_PAGES\<close> places, no normal form is
  attempted twice, and \<open>pages\<close> holds one snapshot for each navigation that succeeded
  and none for one that failed.
\<close>

theorem failed_navigation_takes_slot:
  "case crawl_from parse w baseUrl eng of
     (Inl err, eng') \<Rightarrow> \<not> has_browser eng \<and> err = BrowserNotLaunched \<and> eng' = eng
   | (Inr st, eng') \<Rightarrow>
       has_browser eng \<and>
       visited st = map (normalizeUrl parse) (gotos (trace_since eng eng')) \<and>
       distinct (visited st) \<and>
       Set_size (visited st) \<le> MAX_PAGES \<and>
       map page_url (crawl_pages st) = loaded_gotos (trace_since eng eng')"
proof (cases "has_browser eng")
  case False
  then show ?thesis by (simp add: crawl_from_not_launched)
next
  case True
  from crawl_from_launched [OF True, of parse w baseUrl] obtain st eng' tr where
    r: "crawl_from parse w baseUrl eng = (Inr st, eng')" and c: "calls eng' = calls eng @ tr" and
    inv: "crawl_inv parse st tr"
    by blast
  have t: "trace_since eng eng' = tr" using c by (simp add: trace_since_def)
  show ?thesis using True r inv by (auto simp: t crawl_inv_def)
qed

text \<open>
  An example run: the failed navigation to \<open>/about\<close> is in \<open>visited\<close> and among the
  calls of \<open>goto\<close>, and has no snapshot; the home page is not visited twice.
\<close>

lemma crawl_three_pages:
  "(case crawl_from URL_http three_pages ''http://localhost:3000'' launched_engine of
      (Inr st, e) \<Rightarrow>
        Some (visited st, map page_url (crawl_pages st), gotos (calls e),
              map status (crawl_results st))
    | (Inl err, e) \<Rightarrow> None) =
   Some ([''http://localhost:3000'', ''http://localhost:3000/about'',
          ''http://localhost:3000/contact''],
         [''http://localhost:3000'', ''http://localhost:3000/contact/''],
         [''http://localhost:3000'', ''http://localhost:3000/about'',
          ''http://localhost:3000/contact/''],
         [Pass, Fail, Pass])"
  by code_simp

section \<open>Properties of the form tester\<close>






text \<open>
  C10. \<open>testForms\<close> on an empty list of forms returns the single outcome
  \<open>form-presence\<close>, a pass, and leaves the engine as it was: no method of the browser
  is called.
\<close>

theorem testForms_no_forms:
  "testForms w pageUrl [] eng =
     (Inr [\<lparr>page = pageUrl, test = ''form-presence'', status = Pass,
            message = ''No forms found on page (nothing to test)'',
            screenshot = None, details = None\<rparr>], eng)"
  by (simp add: testForms_def ret_def)

section \<open>Properties of the click tester\<close>



section \<open>Properties of the overlap check\<close>

text \<open>
  C4. The inner loop of \<open>checkOverlaps\<close> has no bound and the outer loop stops only once
  more than five pairs are listed: seven buttons at the same place give six pairs in the
  first pass of the outer loop.
\<close>

theorem checkOverlaps_six_pairs:
  "checkOverlaps (replicate 7 button_box) = replicate 6 ''BUTTON overlaps with BUTTON'' \<and>
   length (checkOverlaps (replicate 7 button_box)) = 6"
  by code_simp

end
